theory Spec2Isabelle
  imports Complex_Main "HOL-Library.Sublist"
begin

section \<open>Values and errors\<close>

text \<open>
  Python integers are \<open>int\<close>. Python floats are modelled by exact rationals: the
  thresholds and quotients of the analytics code are compared exactly, and IEEE rounding
  of the binary representation is not part of the model. Exceptions are values of
  \<open>py_error\<close>; a function that can raise returns \<open>py_error + 'a\<close>.
\<close>

datatype py_error = ZeroDivisionError | KeyError string | RiotAPIError string

definition truediv :: "rat \<Rightarrow> rat \<Rightarrow> py_error + rat" where
  "truediv x y = (if y = 0 then Inl ZeroDivisionError else Inr (x / y))"

text \<open>\<open>round(x, ndigits)\<close>: to the nearest multiple of \<open>10\<^sup>-\<^sup>n\<close>, ties to even.\<close>

definition round_half_even :: "rat \<Rightarrow> int" where
  "round_half_even x =
     (let f = \<lfloor>x\<rfloor>; d = x - of_int f
      in if d < 1 / 2 then f else if 1 / 2 < d then f + 1
         else if even f then f else f + 1)"

definition py_round :: "rat \<Rightarrow> nat \<Rightarrow> rat" where
  "py_round x ndigits = of_int (round_half_even (x * 10 ^ ndigits)) / 10 ^ ndigits"

section \<open>Record normalizer: \<open>MatchDataProcessor\<close> derived fields\<close>



section \<open>The processed data frame\<close>

text \<open>
  A row of the data frame built by \<open>process_match_history\<close>, with the columns that the
  aggregation functions read. The frame is the list of its rows in storage order (sorted
  by game time, most recent first).
\<close>

record match_stats =
  win :: bool
  kills :: int
  deaths :: int
  assists :: int
  kda :: rat
  total_damage_dealt_to_champions :: int
  total_damage_taken :: int
  gold_earned :: int
  total_minions_killed :: int
  neutral_minions_killed :: int
  cs_per_minute :: rat
  vision_score :: int
  wards_placed :: int
  control_wards_placed :: int
  double_kills :: int
  triple_kills :: int
  quadra_kills :: int
  penta_kills :: int
  game_duration :: int

type_synonym data_frame = "match_stats list"

text \<open>
  \<open>Series.mean()\<close>. Every function below reads a mean only after testing that the frame
  is not empty, so the column has at least one entry.
\<close>

definition mean :: "rat list \<Rightarrow> rat" where
  "mean xs = sum_list xs / of_nat (length xs)"

definition int_column :: "(match_stats \<Rightarrow> int) \<Rightarrow> data_frame \<Rightarrow> rat list" where
  "int_column f df = map (\<lambda>r. of_int (f r)) df"

text \<open>\<open>df.head(n)\<close>: the first \<open>n\<close> rows, or all but the last \<open>-n\<close> for negative \<open>n\<close>.\<close>

definition df_head :: "int \<Rightarrow> data_frame \<Rightarrow> data_frame" where
  "df_head n df = (if 0 \<le> n then take (nat n) df else take (length df - nat (- n)) df)"

section \<open>Aggregation: \<open>MatchDataProcessor.calculate_overall_stats\<close>\<close>

record overall_stats =
  total_games :: int
  wins :: int
  losses :: int
  win_rate :: rat
  avg_kills :: rat
  avg_deaths :: rat
  avg_assists :: rat
  avg_kda :: rat
  avg_damage_dealt :: rat
  max_damage_dealt :: int
  avg_damage_taken :: rat
  avg_gold_earned :: rat
  avg_cs :: rat
  avg_cs_per_minute :: rat
  avg_vision_score :: rat
  avg_wards_placed :: rat
  avg_control_wards :: rat
  total_double_kills :: int
  total_triple_kills :: int
  total_quadra_kills :: int
  total_penta_kills :: int
  avg_game_duration_minutes :: rat
  total_time_played_hours :: rat

text \<open>
  The entry \<^verbatim>\<open>'win_rate': round(wins / total_games * 100, 2) if total_games > 0 else 0\<close>.
\<close>

definition win_rate_entry :: "int \<Rightarrow> int \<Rightarrow> py_error + rat" where
  "win_rate_entry n_wins n_games =
     (if n_games > 0 then
        (case truediv (of_int n_wins) (of_int n_games) of
           Inl e \<Rightarrow> Inl e
         | Inr q \<Rightarrow> Inr (py_round (q * 100) 2))
      else Inr 0)"

text \<open>
  \<^verbatim>\<open>
  if df.empty:
      return {}
  total_games = len(df)
  wins = df['win'].sum()
  losses = total_games - wins
  stats = { ... }
  return stats
  \<close>
  The empty dictionary is \<open>None\<close>.
\<close>

definition calculate_overall_stats :: "data_frame \<Rightarrow> py_error + overall_stats option" where
  "calculate_overall_stats df =
     (if df = [] then Inr None
      else
        let n_games = int (length df);
            n_wins = int (length (filter win df));
            n_losses = n_games - n_wins
        in case win_rate_entry n_wins n_games of
             Inl e \<Rightarrow> Inl e
           | Inr wr \<Rightarrow> Inr (Some \<lparr>
               total_games = n_games,
               wins = n_wins,
               losses = n_losses,
               win_rate = wr,
               avg_kills = py_round (mean (int_column kills df)) 2,
               avg_deaths = py_round (mean (int_column deaths df)) 2,
               avg_assists = py_round (mean (int_column assists df)) 2,
               avg_kda = py_round (mean (map kda df)) 2,
               avg_damage_dealt = py_round (mean (int_column total_damage_dealt_to_champions df)) 0,
               max_damage_dealt = Max (set (map total_damage_dealt_to_champions df)),
               avg_damage_taken = py_round (mean (int_column total_damage_taken df)) 0,
               avg_gold_earned = py_round (mean (int_column gold_earned df)) 0,
               avg_cs = py_round (mean (int_column
                          (\<lambda>r. total_minions_killed r + neutral_minions_killed r) df)) 1,
               avg_cs_per_minute = py_round (mean (map cs_per_minute df)) 2,
               avg_vision_score = py_round (mean (int_column vision_score df)) 1,
               avg_wards_placed = py_round (mean (int_column wards_placed df)) 1,
               avg_control_wards = py_round (mean (int_column control_wards_placed df)) 1,
               total_double_kills = sum_list (map double_kills df),
               total_triple_kills = sum_list (map triple_kills df),
               total_quadra_kills = sum_list (map quadra_kills df),
               total_penta_kills = sum_list (map penta_kills df),
               avg_game_duration_minutes = py_round (mean (int_column game_duration df) / 60) 1,
               total_time_played_hours =
                 py_round (of_int (sum_list (map game_duration df)) / 3600) 1
             \<rparr>))"

text \<open>An example row for concrete runs: a game with the given result, deaths and vision score.\<close>

definition example_game :: "bool \<Rightarrow> int \<Rightarrow> int \<Rightarrow> match_stats" where
  "example_game won n_deaths vision =
     \<lparr>win = won, kills = 4, deaths = n_deaths, assists = 6, kda = 5,
      total_damage_dealt_to_champions = 20000, total_damage_taken = 15000,
      gold_earned = 11000, total_minions_killed = 150, neutral_minions_killed = 30,
      cs_per_minute = 6, vision_score = vision, wards_placed = 10,
      control_wards_placed = 2, double_kills = 1, triple_kills = 0, quadra_kills = 0,
      penta_kills = 0, game_duration = 1800\<rparr>"

section \<open>Weakness rules: \<open>MatchDataProcessor.identify_weaknesses\<close>\<close>

record weakness =
  metric :: string
  wvalue :: rat
  severity :: string
  suggestion :: string

text \<open>
  The result dictionary is an association list in insertion order. The four rules are
  independent; each adds at most one entry.
\<close>

definition identify_weaknesses :: "data_frame \<Rightarrow> (string \<times> weakness) list" where
  "identify_weaknesses df =
     (if df = [] then []
      else
        let avg_deaths = mean (int_column deaths df);
            high_deaths =
              (if avg_deaths > 6 then
                 [(''high_deaths'', \<lparr>
                    metric = ''Average Deaths'',
                    wvalue = py_round avg_deaths 2,
                    severity = (if avg_deaths > 8 then ''high'' else ''medium''),
                    suggestion = ''Focus on positioning and map awareness to reduce deaths''\<rparr>)]
               else []);
            avg_vision = mean (int_column vision_score df);
            low_vision =
              (if avg_vision < 30 then
                 [(''low_vision'', \<lparr>
                    metric = ''Average Vision Score'',
                    wvalue = py_round avg_vision 1,
                    severity = (if avg_vision < 20 then ''high'' else ''medium''),
                    suggestion =
                      ''Buy more control wards and place trinket wards more frequently''\<rparr>)]
               else []);
            avg_cs_per_min = mean (map cs_per_minute df);
            low_cs =
              (if avg_cs_per_min < 5 then
                 [(''low_cs'', \<lparr>
                    metric = ''CS per Minute'',
                    wvalue = py_round avg_cs_per_min 2,
                    severity = ''medium'',
                    suggestion =
                      ''Practice last-hitting and wave management in practice tool''\<rparr>)]
               else []);
            lost = filter (\<lambda>r. win r = False) df;
            low_damage_in_losses =
              (if lost \<noteq> [] then
                 let avg_damage_in_losses = mean (int_column total_damage_dealt_to_champions lost);
                     overall_avg_damage = mean (int_column total_damage_dealt_to_champions df)
                 in if avg_damage_in_losses < overall_avg_damage * (7 / 10) then
                      [(''low_damage_in_losses'', \<lparr>
                         metric = ''Damage in Lost Games'',
                         wvalue = py_round avg_damage_in_losses 0,
                         severity = ''medium'',
                         suggestion = ''Stay more active in teamfights even when behind''\<rparr>)]
                    else []
               else [])
        in high_deaths @ low_vision @ low_cs @ low_damage_in_losses)"

definition severity_of :: "(string \<times> weakness) list \<Rightarrow> string \<Rightarrow> string option" where
  "severity_of weaknesses key = map_option severity (map_of weaknesses key)"

section \<open>Trend labels: \<open>InsightsEngine\<close>\<close>

text \<open>
  A row of the monthly table returned by \<open>get_performance_trends\<close> (one row per month,
  ascending by month, so the last row is the most recent bucket).
\<close>

record trend_row =
  games :: int
  month_win_rate :: rat
  month_avg_kda :: rat

record performance_trends =
  win_rate_trend :: string
  kda_trend :: string

text \<open>
  \<^verbatim>\<open>
  if len(monthly) >= 2:
      recent_wr = monthly['win_rate'].iloc[-1]
      previous_wr = monthly['win_rate'].iloc[-2]
      wr_trend = 'improving' if recent_wr > previous_wr else 'declining'
      recent_kda = monthly['avg_kda'].iloc[-1]
      previous_kda = monthly['avg_kda'].iloc[-2]
      kda_trend = 'improving' if recent_kda > previous_kda else 'declining'
  else:
      wr_trend = 'stable'
      kda_trend = 'stable'
  \<close>
  The monthly table is the argument; the two labels are the result.
\<close>

definition get_performance_trends :: "trend_row list \<Rightarrow> performance_trends" where
  "get_performance_trends monthly =
     (if length monthly \<ge> 2 then
        let recent_wr = month_win_rate (last monthly);
            previous_wr = month_win_rate (last (butlast monthly));
            wr_trend = (if recent_wr > previous_wr then ''improving'' else ''declining'');
            recent_kda = month_avg_kda (last monthly);
            previous_kda = month_avg_kda (last (butlast monthly));
            kda_trend = (if recent_kda > previous_kda then ''improving'' else ''declining'')
        in \<lparr>win_rate_trend = wr_trend, kda_trend = kda_trend\<rparr>
      else \<lparr>win_rate_trend = ''stable'', kda_trend = ''stable''\<rparr>)"

record recent_performance =
  recent_stats :: overall_stats
  games_analyzed :: int
  recent_win_rate_change :: rat
  recent_kda_change :: rat
  trend :: string

text \<open>
  \<^verbatim>\<open>
  recent_df = df.head(games)
  if recent_df.empty:
      return {}
  recent_stats = self.processor.calculate_overall_stats(recent_df)
  overall_stats = self.processor.calculate_overall_stats(df)
  wr_diff = recent_stats['win_rate'] - overall_stats['win_rate']
  kda_diff = recent_stats['avg_kda'] - overall_stats['avg_kda']
  return {**recent_stats, 'games_analyzed': len(recent_df),
          'win_rate_change': round(wr_diff, 2), 'kda_change': round(kda_diff, 2),
          'trend': 'improving' if wr_diff > 0 else 'declining' if wr_diff < 0 else 'stable'}
  \<close>
  The first key read of each dictionary is \<open>win_rate\<close>, which an empty dictionary
  does not have.
\<close>

definition trend_label :: "rat \<Rightarrow> string" where
  "trend_label wr_diff =
     (if wr_diff > 0 then ''improving'' else if wr_diff < 0 then ''declining'' else ''stable'')"

definition analyze_recent_performance ::
    "data_frame \<Rightarrow> int \<Rightarrow> py_error + recent_performance option" where
  "analyze_recent_performance df n =
     (let recent_df = df_head n df
      in if recent_df = [] then Inr None
         else case calculate_overall_stats recent_df of
           Inl e \<Rightarrow> Inl e
         | Inr recent_dict \<Rightarrow>
         (case calculate_overall_stats df of
           Inl e \<Rightarrow> Inl e
         | Inr overall_dict \<Rightarrow>
         (case recent_dict of
           None \<Rightarrow> Inl (KeyError ''win_rate'')
         | Some recent \<Rightarrow>
         (case overall_dict of
           None \<Rightarrow> Inl (KeyError ''win_rate'')
         | Some overall \<Rightarrow>
             let wr_diff = win_rate recent - win_rate overall;
                 kda_diff = avg_kda recent - avg_kda overall
             in Inr (Some \<lparr>
                  recent_stats = recent,
                  games_analyzed = int (length recent_df),
                  recent_win_rate_change = py_round wr_diff 2,
                  recent_kda_change = py_round kda_diff 2,
                  trend = trend_label wr_diff\<rparr>)))))"

section \<open>Growth comparison: \<open>InsightsEngine._calculate_growth_metrics\<close>\<close>



section \<open>Streaks: \<open>InsightsEngine._calculate_max_streak\<close>\<close>

text \<open>
  The source scans the boolean column of the data frame in storage order, keeping the
  current and the maximal streak:
  \<^verbatim>\<open>
  max_streak = 0
  current_streak = 0
  for value in df[column]:
      if value:
          current_streak += 1
          max_streak = max(max_streak, current_streak)
      else:
          current_streak = 0
  return max_streak
  \<close>
  The loop is a fold over the column with the pair of counters as state.
\<close>

fun streak_loop :: "nat \<Rightarrow> nat \<Rightarrow> bool list \<Rightarrow> nat" where
  "streak_loop max_streak current_streak [] = max_streak"
| "streak_loop max_streak current_streak (v # vs) =
     (if v then streak_loop (max max_streak (current_streak + 1)) (current_streak + 1) vs
      else streak_loop max_streak 0 vs)"

definition calculate_max_streak :: "bool list \<Rightarrow> nat" where
  "calculate_max_streak column = streak_loop 0 0 column"

section \<open>Fetch client: the response cache of \<open>RiotAPIClient\<close>\<close>

text \<open>
  A response is a JSON value; Python tests it for truth in \<open>if cached:\<close>. \<open>JNull\<close> is
  Python's \<open>None\<close>.
\<close>

datatype json =
    JNull
  | JBool bool
  | JNum rat
  | JStr string
  | JList "json list"
  | JDict "(string \<times> json) list"

fun truthy :: "json \<Rightarrow> bool" where
  "truthy JNull = False"
| "truthy (JBool b) = b"
| "truthy (JNum x) = (x \<noteq> 0)"
| "truthy (JStr s) = (s \<noteq> [])"
| "truthy (JList xs) = (xs \<noteq> [])"
| "truthy (JDict kvs) = (kvs \<noteq> [])"

text \<open>
  Time is counted in microseconds from \<open>datetime.min\<close>. The client owns the two
  dictionaries \<open>_cache\<close> and \<open>_cache_expiry\<close>.
\<close>

type_synonym datetime = nat

definition datetime_min :: datetime where
  "datetime_min = 0"

definition timedelta_hours :: "nat \<Rightarrow> nat" where
  "timedelta_hours h = h * 3600000000"

record client =
  cache :: "string \<rightharpoonup> json"
  cache_expiry :: "string \<rightharpoonup> datetime"

text \<open>
  \<^verbatim>\<open>
  def _get_from_cache(self, key):
      if key in self._cache:
          if datetime.now() < self._cache_expiry.get(key, datetime.min):
              return self._cache[key]
          else:
              del self._cache[key]
              del self._cache_expiry[key]
      return None
  \<close>
  The result is paired with the client after the call; the second \<open>del\<close> raises
  \<open>KeyError\<close> when the key has no expiry entry, after the first has removed the value.
\<close>

definition get_from_cache :: "datetime \<Rightarrow> client \<Rightarrow> string \<Rightarrow> (py_error + json) \<times> client" where
  "get_from_cache now c key =
     (case cache c key of
        None \<Rightarrow> (Inr JNull, c)
      | Some v \<Rightarrow>
          if now < (case cache_expiry c key of None \<Rightarrow> datetime_min | Some t \<Rightarrow> t)
          then (Inr v, c)
          else
            let c1 = c\<lparr>cache := (cache c)(key := None)\<rparr>
            in (case cache_expiry c1 key of
                  None \<Rightarrow> (Inl (KeyError key), c1)
                | Some t \<Rightarrow> (Inr JNull, c1\<lparr>cache_expiry := (cache_expiry c1)(key := None)\<rparr>)))"

text \<open>
  \<^verbatim>\<open>
  def _set_cache(self, key, data, expiry_hours=24):
      self._cache[key] = data
      self._cache_expiry[key] = datetime.now() + timedelta(hours=expiry_hours)
  \<close>
\<close>

definition set_cache :: "datetime \<Rightarrow> client \<Rightarrow> string \<Rightarrow> json \<Rightarrow> nat \<Rightarrow> client" where
  "set_cache now c key data expiry_hours =
     c\<lparr>cache := (cache c)(key \<mapsto> data),
       cache_expiry := (cache_expiry c)(key \<mapsto> now + timedelta_hours expiry_hours)\<rparr>"

text \<open>
  \<open>_make_request\<close>. The upstream is the function \<open>http_get\<close>: the decoded body of a
  successful response, or the \<open>RiotAPIError\<close> that the \<open>except\<close> clause raises for a
  failed one. The result records the value returned or raised, the client afterwards,
  and the list of locators requested from the network. \<open>now\<close> is the clock read by the
  cache lookup and \<open>now_set\<close> the clock read when the response is stored.
  \<^verbatim>\<open>
  if use_cache:
      cached = self._get_from_cache(url)
      if cached:
          return cached
  try:
      response = requests.get(url, headers=self.headers, timeout=10)
      response.raise_for_status()
      data = response.json()
      if use_cache:
          self._set_cache(url, data, cache_hours)
      return data
  except RequestException as e:
      ... raise RiotAPIError(...)
  \<close>
\<close>

record request_outcome =
  returned :: "py_error + json"
  client_after :: client
  network_calls :: "string list"

definition network_request ::
    "(string \<Rightarrow> py_error + json) \<Rightarrow> datetime \<Rightarrow> client \<Rightarrow> string \<Rightarrow> bool \<Rightarrow> nat
      \<Rightarrow> request_outcome" where
  "network_request http_get now_set c url use_cache cache_hours =
     (case http_get url of
        Inl e \<Rightarrow> \<lparr>returned = Inl e, client_after = c, network_calls = [url]\<rparr>
      | Inr data \<Rightarrow>
          \<lparr>returned = Inr data,
           client_after = (if use_cache then set_cache now_set c url data cache_hours else c),
           network_calls = [url]\<rparr>)"

definition make_request ::
    "(string \<Rightarrow> py_error + json) \<Rightarrow> datetime \<Rightarrow> datetime \<Rightarrow> client \<Rightarrow> string \<Rightarrow> bool \<Rightarrow> nat
      \<Rightarrow> request_outcome" where
  "make_request http_get now now_set c url use_cache cache_hours =
     (if use_cache then
        (case get_from_cache now c url of
           (Inl e, c1) \<Rightarrow> \<lparr>returned = Inl e, client_after = c1, network_calls = []\<rparr>
         | (Inr cached, c1) \<Rightarrow>
             if truthy cached
             then \<lparr>returned = Inr cached, client_after = c1, network_calls = []\<rparr>
             else network_request http_get now_set c1 url use_cache cache_hours)
      else network_request http_get now_set c url use_cache cache_hours)"

text \<open>
  A client for concrete runs: the listing locator \<open>/ids\<close> is cached with the empty JSON
  list (a player without matches in the window) until time 100; and an upstream that
  answers every request with a list of one match ID.
\<close>

definition cached_empty_list :: client where
  "cached_empty_list =
     \<lparr>cache = [''/ids'' \<mapsto> JList []], cache_expiry = [''/ids'' \<mapsto> 100]\<rparr>"

definition upstream_one_id :: "string \<Rightarrow> py_error + json" where
  "upstream_one_id url = Inr (JList [JStr ''NA1_1''])"

section \<open>Fetch client: \<open>RiotAPIClient.get_full_match_history\<close>\<close>













section \<open>Properties of the derived fields\<close>








section \<open>Properties of the trend labels\<close>

text \<open>
  C6. Two monthly buckets with equal win rate and equal KDA: \<open>_get_performance_trends\<close>
  labels both trends ``declining'', where the rule of the claim says ``stable''. The
  comparison of recent and overall win rate labels the same tie ``stable''.
\<close>

theorem trend_tie_labelled_declining:
  "get_performance_trends
     [\<lparr>games = 2, month_win_rate = 50, month_avg_kda = 3\<rparr>,
      \<lparr>games = 4, month_win_rate = 50, month_avg_kda = 3\<rparr>]
   = \<lparr>win_rate_trend = ''declining'', kda_trend = ''declining''\<rparr> \<and>
   trend_label (50 - 50) = ''stable''"
  by (simp add: get_performance_trends_def trend_label_def)

section \<open>Properties of the streak computation\<close>

text \<open>
  The state of the scan: \<open>c\<close> trailing wins so far, \<open>m\<close> the best run so far. The
  result is at least \<open>m\<close>, bounds every run of \<open>replicate c True @ vs\<close>, and is either
  \<open>m\<close> or the length of a run of that list.
\<close>

lemma streak_loop_ge: "m \<le> streak_loop m c vs"
  by (induction vs arbitrary: m c) (auto intro: order_trans [OF max.cobounded1])

lemma prefix_replicate_False:
  "prefix xs (False # vs) \<Longrightarrow> set xs \<subseteq> {True} \<Longrightarrow> xs = []"
  by (cases xs) auto

lemma streak_loop_upper:
  "c \<le> m \<Longrightarrow> sublist (replicate n True) (replicate c True @ vs) \<Longrightarrow> n \<le> streak_loop m c vs"
proof (induction vs arbitrary: m c)
  case Nil
  from Nil.prems(2) have "n \<le> c"
    using sublist_length_le by fastforce
  with Nil.prems(1) show ?case by simp
next
  case (Cons v vs)
  show ?case
  proof (cases v)
    case True
    have "replicate c True @ v # vs = replicate (Suc c) True @ vs"
      using True by (simp add: replicate_app_Cons_same)
    with Cons.prems(2) have "sublist (replicate n True) (replicate (Suc c) True @ vs)"
      by simp
    then have "n \<le> streak_loop (max m (Suc c)) (Suc c) vs"
      by (rule Cons.IH [rotated]) simp
    with True show ?thesis by simp
  next
    case False
    from Cons.prems(2) False
    consider (left) "sublist (replicate n True) (replicate c True)"
      | (right) "sublist (replicate n True) (False # vs)"
      | (mid) xs1 xs2 where "replicate n True = xs1 @ xs2" "suffix xs1 (replicate c True)"
          "prefix xs2 (False # vs)"
      by (auto simp: sublist_append)
    then show ?thesis
    proof cases
      case left
      then have "n \<le> c" using sublist_length_le by fastforce
      also have "c \<le> m" by fact
      also have "m \<le> streak_loop m c (v # vs)" by (rule streak_loop_ge)
      finally show ?thesis .
    next
      case right
      then consider "prefix (replicate n True) (False # vs)" | "sublist (replicate n True) vs"
        by (auto simp: sublist_Cons_right)
      then show ?thesis
      proof cases
        case 1
        then have "replicate n True = []"
          by (rule prefix_replicate_False) auto
        then show ?thesis by simp
      next
        case 2
        then have "sublist (replicate n True) (replicate 0 True @ vs)" by simp
        then have "n \<le> streak_loop m 0 vs"
          by (rule Cons.IH [rotated]) simp
        with False show ?thesis by simp
      qed
    next
      case mid
      have "set xs2 \<subseteq> set (replicate n True)"
        unfolding mid(1) by simp
      then have "set xs2 \<subseteq> {True}" by auto
      with mid(3) have "xs2 = []" by (rule prefix_replicate_False)
      with mid(1,2) have "suffix (replicate n True) (replicate c True)" by simp
      then have "n \<le> c" using suffix_length_le by fastforce
      also have "c \<le> m" by fact
      also have "m \<le> streak_loop m c (v # vs)" by (rule streak_loop_ge)
      finally show ?thesis .
    qed
  qed
qed

lemma streak_loop_attained:
  "streak_loop m c vs = m \<or> sublist (replicate (streak_loop m c vs) True) (replicate c True @ vs)"
proof (induction vs arbitrary: m c)
  case Nil
  show ?case by simp
next
  case (Cons v vs)
  show ?case
  proof (cases v)
    case True
    have eq: "replicate c True @ v # vs = replicate (Suc c) True @ vs"
      using True by (simp add: replicate_app_Cons_same)
    let ?r = "streak_loop (max m (Suc c)) (Suc c) vs"
    from True have r: "streak_loop m c (v # vs) = ?r" by simp
    from Cons.IH [of "max m (Suc c)" "Suc c"]
    consider "?r = m" | "?r = Suc c" | "sublist (replicate ?r True) (replicate (Suc c) True @ vs)"
      by (auto simp: max_def split: if_splits)
    then show ?thesis
    proof cases
      case 1
      then show ?thesis unfolding r by blast
    next
      case 2
      have "sublist (replicate (Suc c) True) (replicate (Suc c) True @ vs)"
        by (rule sublist_append_rightI)
      then show ?thesis unfolding r eq 2 by blast
    next
      case 3
      then show ?thesis unfolding r eq by blast
    qed
  next
    case False
    let ?r = "streak_loop m 0 vs"
    from Cons.IH [of m 0] consider "?r = m" | "sublist (replicate ?r True) vs"
      by auto
    then show ?thesis
    proof cases
      case 1
      with False show ?thesis by simp
    next
      case 2
      then have "sublist (replicate ?r True) (replicate c True @ v # vs)"
        by (simp add: sublist_append sublist_Cons_right)
      with False show ?thesis by simp
    qed
  qed
qed

text \<open>
  C7. The frame stores the most recent game first, so the chronological column is the
  reverse of the stored one. The streak returned is the length of a run of consecutive
  wins of the chronological column, and no run of consecutive wins is longer; the
  chronological flags \<open>[T,T,T,T,T,F,T]\<close> give 5.
\<close>

theorem max_streak_longest_run:
  "sublist (replicate (calculate_max_streak df_win) True) (rev df_win) \<and>
   (\<forall>n. sublist (replicate n True) (rev df_win) \<longrightarrow> n \<le> calculate_max_streak df_win) \<and>
   calculate_max_streak (rev [True, True, True, True, True, False, True]) = 5"
proof (intro conjI allI impI)
  have "sublist (replicate (calculate_max_streak df_win) True) df_win"
    using streak_loop_attained [of 0 0 df_win] by (auto simp: calculate_max_streak_def)
  then show "sublist (replicate (calculate_max_streak df_win) True) (rev df_win)"
    by (simp add: sublist_rev_right)
next
  fix n assume "sublist (replicate n True) (rev df_win)"
  then have "sublist (replicate n True) (replicate 0 True @ df_win)"
    by (simp add: sublist_rev_right)
  then show "n \<le> calculate_max_streak df_win"
    unfolding calculate_max_streak_def by (rule streak_loop_upper [rotated]) simp
next
  show "calculate_max_streak (rev [True, True, True, True, True, False, True]) = 5"
    by (simp add: calculate_max_streak_def)
qed

theorem max_streak_longest_run_witness:
  "sublist (replicate 2 True) (rev [True, False, True, True]) \<and>
   2 \<le> calculate_max_streak [True, False, True, True] \<and>
   calculate_max_streak [True, False, True, True] = 2"
proof -
  have run: "sublist (replicate 2 True) (rev [True, False, True, True])"
    by (simp add: numeral_2_eq_2 sublist_Cons_right)
  from max_streak_longest_run [of "[True, False, True, True]"] run
  have "2 \<le> calculate_max_streak [True, False, True, True]" by blast
  moreover have "calculate_max_streak [True, False, True, True] = 2"
    by (simp add: calculate_max_streak_def)
  ultimately show ?thesis using run by simp
qed

section \<open>Properties of the aggregation\<close>

text \<open>
  On a non-empty frame the game count is positive, so the win-rate entry is computed by
  the quotient branch and the statistics dictionary is returned with all its keys.
\<close>

lemma win_rate_entry_positive:
  "0 < n \<Longrightarrow> win_rate_entry w n = Inr (py_round (of_int w / of_int n * 100) 2)"
  by (simp add: win_rate_entry_def truediv_def)

lemma calculate_overall_stats_nonempty:
  assumes "df \<noteq> []"
  shows "\<exists>s. calculate_overall_stats df = Inr (Some s) \<and>
             total_games s = int (length df) \<and>
             wins s = int (length (filter win df)) \<and>
             win_rate s = py_round (of_int (wins s) / of_int (total_games s) * 100) 2"
proof -
  from assms have "0 < int (length df)" by simp
  then have "win_rate_entry (int (length (filter win df))) (int (length df))
      = Inr (py_round (of_int (int (length (filter win df))) / of_int (int (length df)) * 100) 2)"
    by (rule win_rate_entry_positive)
  with assms show ?thesis
    by (simp add: calculate_overall_stats_def Let_def)
qed

text \<open>
  C10. The empty frame returns the empty dictionary before any arithmetic. Every other
  frame reaches the win-rate entry with a strictly positive game count, so the entry is
  the rounded quotient \<open>wins / total_games * 100\<close> and the \<open>else 0\<close> fallback is not
  taken. No frame makes the function raise.
\<close>

theorem overall_stats_no_zero_division:
  "calculate_overall_stats [] = Inr None \<and>
   (df \<noteq> [] \<longrightarrow>
      (\<exists>s. calculate_overall_stats df = Inr (Some s) \<and>
           total_games s = int (length df) \<and> 0 < total_games s \<and>
           win_rate s = py_round (of_int (wins s) / of_int (total_games s) * 100) 2)) \<and>
   (\<forall>e. calculate_overall_stats df \<noteq> Inl e)"
proof (intro conjI impI allI)
  show "calculate_overall_stats [] = Inr None"
    by (simp add: calculate_overall_stats_def)
next
  assume ne: "df \<noteq> []"
  from calculate_overall_stats_nonempty [OF ne] obtain s where
    s: "calculate_overall_stats df = Inr (Some s)" "total_games s = int (length df)"
       "win_rate s = py_round (of_int (wins s) / of_int (total_games s) * 100) 2"
    by blast
  from ne s(2) have "0 < total_games s" by simp
  with s show "\<exists>s. calculate_overall_stats df = Inr (Some s) \<and>
           total_games s = int (length df) \<and> 0 < total_games s \<and>
           win_rate s = py_round (of_int (wins s) / of_int (total_games s) * 100) 2"
    by blast
next
  fix e
  show "calculate_overall_stats df \<noteq> Inl e"
  proof (cases "df = []")
    case True
    then show ?thesis by (simp add: calculate_overall_stats_def)
  next
    case False
    from calculate_overall_stats_nonempty [OF False] show ?thesis by auto
  qed
qed

theorem overall_stats_no_zero_division_witness:
  "[example_game True 2 30] \<noteq> [] \<and>
   (\<exists>s. calculate_overall_stats [example_game True 2 30] = Inr (Some s) \<and>
        total_games s = 1 \<and> win_rate s = py_round (of_int (wins s) / of_int (total_games s) * 100) 2) \<and>
   calculate_overall_stats [example_game True 2 30] \<noteq> Inl ZeroDivisionError"
proof -
  have ne: "[example_game True 2 30] \<noteq> []" by simp
  from overall_stats_no_zero_division [of "[example_game True 2 30]"] ne
  obtain s where "calculate_overall_stats [example_game True 2 30] = Inr (Some s)"
      "total_games s = int (length [example_game True 2 30])"
      "win_rate s = py_round (of_int (wins s) / of_int (total_games s) * 100) 2"
    by blast
  moreover from overall_stats_no_zero_division [of "[example_game True 2 30]"]
  have "calculate_overall_stats [example_game True 2 30] \<noteq> Inl ZeroDivisionError"
    by blast
  ultimately show ?thesis using ne by auto
qed

text \<open>
  The comparison of the recent window with the whole history labels its win-rate
  difference with the three-way rule: a tie is ``stable''.
\<close>

lemma recent_performance_trend:
  assumes "df_head n df \<noteq> []"
  shows "\<exists>recent overall r.
           calculate_overall_stats (df_head n df) = Inr (Some recent) \<and>
           calculate_overall_stats df = Inr (Some overall) \<and>
           analyze_recent_performance df n = Inr (Some r) \<and>
           trend r = trend_label (win_rate recent - win_rate overall)"
proof -
  from assms have "df \<noteq> []"
    by (auto simp: df_head_def split: if_splits)
  from calculate_overall_stats_nonempty [OF assms] obtain recent where
    recent: "calculate_overall_stats (df_head n df) = Inr (Some recent)" by blast
  from calculate_overall_stats_nonempty [OF \<open>df \<noteq> []\<close>] obtain overall where
    overall: "calculate_overall_stats df = Inr (Some overall)" by blast
  from assms recent overall show ?thesis
    by (simp add: analyze_recent_performance_def Let_def)
qed

section \<open>Properties of the growth comparison\<close>





section \<open>Properties of the weakness rules\<close>

text \<open>
  C8. For a non-empty frame, the deaths weakness has severity ``high'' exactly when the
  average deaths exceed 8, ``medium'' exactly when they exceed 6 and are at most 8, and
  is absent exactly when they are at most 6 (so at exactly 6.0). The vision weakness is
  ``high'' exactly below 20, ``medium'' exactly from 20 to below 30, absent from 30 on.
\<close>

theorem weakness_thresholds:
  assumes "df \<noteq> []"
  shows
    "(severity_of (identify_weaknesses df) ''high_deaths'' = Some ''high''
        \<longleftrightarrow> 8 < mean (int_column deaths df)) \<and>
     (severity_of (identify_weaknesses df) ''high_deaths'' = Some ''medium''
        \<longleftrightarrow> 6 < mean (int_column deaths df) \<and> mean (int_column deaths df) \<le> 8) \<and>
     (severity_of (identify_weaknesses df) ''high_deaths'' = None
        \<longleftrightarrow> mean (int_column deaths df) \<le> 6) \<and>
     (severity_of (identify_weaknesses df) ''low_vision'' = Some ''high''
        \<longleftrightarrow> mean (int_column vision_score df) < 20) \<and>
     (severity_of (identify_weaknesses df) ''low_vision'' = Some ''medium''
        \<longleftrightarrow> 20 \<le> mean (int_column vision_score df) \<and> mean (int_column vision_score df) < 30) \<and>
     (severity_of (identify_weaknesses df) ''low_vision'' = None
        \<longleftrightarrow> 30 \<le> mean (int_column vision_score df))"
proof -
  define d where "d = mean (int_column deaths df)"
  define v where "v = mean (int_column vision_score df)"
  have hd: "severity_of (identify_weaknesses df) ''high_deaths'' =
      (if d > 6 then Some (if d > 8 then ''high'' else ''medium'') else None)"
    using assms
    by (simp add: severity_of_def identify_weaknesses_def Let_def d_def)
  have lv: "severity_of (identify_weaknesses df) ''low_vision'' =
      (if v < 30 then Some (if v < 20 then ''high'' else ''medium'') else None)"
    using assms
    by (simp add: severity_of_def identify_weaknesses_def Let_def v_def)
  show ?thesis
    unfolding hd lv d_def [symmetric] v_def [symmetric] by auto
qed

theorem weakness_thresholds_witness:
  "[example_game True 6 25] \<noteq> [] \<and>
   mean (int_column deaths [example_game True 6 25]) = 6 \<and>
   severity_of (identify_weaknesses [example_game True 6 25]) ''high_deaths'' = None \<and>
   severity_of (identify_weaknesses [example_game True 6 25]) ''low_vision'' = Some ''medium'' \<and>
   severity_of (identify_weaknesses [example_game True 9 19]) ''high_deaths'' = Some ''high'' \<and>
   severity_of (identify_weaknesses [example_game True 9 19]) ''low_vision'' = Some ''high'' \<and>
   mean (int_column deaths [example_game True 6 25, example_game True 7 25]) = 13 / 2 \<and>
   severity_of (identify_weaknesses [example_game True 6 25, example_game True 7 25])
     ''high_deaths'' = Some ''medium''"
proof -
  have ne: "[example_game True 6 25] \<noteq> []" "[example_game True 9 19] \<noteq> []"
      "[example_game True 6 25, example_game True 7 25] \<noteq> []" by simp_all
  have m: "mean (int_column deaths [example_game True 6 25]) = 6"
      "mean (int_column vision_score [example_game True 6 25]) = 25"
      "mean (int_column deaths [example_game True 9 19]) = 9"
      "mean (int_column vision_score [example_game True 9 19]) = 19"
      "mean (int_column deaths [example_game True 6 25, example_game True 7 25]) = 13 / 2"
    by (simp_all add: mean_def int_column_def example_game_def)
  show ?thesis
    using weakness_thresholds [OF ne(1)] weakness_thresholds [OF ne(2)]
      weakness_thresholds [OF ne(3)]
    unfolding m by simp
qed

section \<open>Properties of the response cache\<close>

text \<open>
  A cached value that Python counts as true is returned before its expiry without a
  network call; at or after the expiry the entry is removed by the lookup and the
  upstream is asked.
\<close>

lemma cache_hit_truthy:
  assumes "cache c url = Some v" "cache_expiry c url = Some t" "now < t" "truthy v"
  shows "make_request http_get now now_set c url True cache_hours
         = \<lparr>returned = Inr v, client_after = c, network_calls = []\<rparr>"
  using assms by (simp add: make_request_def get_from_cache_def)

lemma cache_expired_refetch:
  assumes "cache c url = Some v" "cache_expiry c url = Some t" "t \<le> now"
  shows "get_from_cache now c url
         = (Inr JNull, c\<lparr>cache := (cache c)(url := None),
                          cache_expiry := (cache_expiry c)(url := None)\<rparr>)"
    and "network_calls (make_request http_get now now_set c url True cache_hours) = [url]"
    and "returned (make_request http_get now now_set c url True cache_hours) = http_get url"
  using assms
  by (simp_all add: make_request_def get_from_cache_def network_request_def Let_def
      split: sum.split)

text \<open>
  C5. A cached value that Python counts as false is not served. The locator \<open>/ids\<close> is
  cached with the empty list until time 100; at time 50, before the expiry,
  \<open>_make_request\<close> asks the network and returns the fresh response, not the stored
  value: the test \<open>if cached:\<close> takes the stored empty list for a miss.
\<close>

theorem cached_falsy_value_refetched:
  "cache cached_empty_list ''/ids'' = Some (JList []) \<and>
   cache_expiry cached_empty_list ''/ids'' = Some 100 \<and>
   network_calls (make_request upstream_one_id 50 50 cached_empty_list ''/ids'' True 24)
     = [''/ids''] \<and>
   returned (make_request upstream_one_id 50 50 cached_empty_list ''/ids'' True 24)
     = Inr (JList [JStr ''NA1_1''])"
  by (simp add: cached_empty_list_def make_request_def get_from_cache_def network_request_def
      upstream_one_id_def)

section \<open>Properties of the pagination loop\<close>






















end
